theory Spec2Isabelle
  imports Complex_Main "HOL-Library.AList" "HOL-Library.Multiset"
begin

section \<open>Semantic LiDAR ingestion: \<^verbatim>\<open>LIDARSpawnAndObjDetectionSave.py\<close>\<close>

text \<open>
  The script has three parts that carry behaviour: the sensor callback
  \<^verbatim>\<open>semantic_lidar_data\<close>, the fleet provisioner \<^verbatim>\<open>spawn_vehicles_batch\<close> and the
  \<^verbatim>\<open>try/finally\<close> of \<^verbatim>\<open>main\<close>. Each is embedded below as a function over explicit
  state. Python floats are read as the real numbers they denote (no NaN, no
  infinities, no rounding and no overflow of \<^verbatim>\<open>x ** 2\<close> or \<^verbatim>\<open>math.sqrt\<close>); Python
  integers that the simulator delivers as unsigned tags and actor ids are
  \<^typ>\<open>nat\<close>; the argument \<^verbatim>\<open>number\<close> is an \<^typ>\<open>int\<close>. Writing to a file is appending
  to its list of rows.
\<close>

subsection \<open>The tag table (lines 50-75)\<close>

definition object_id :: "(string \<times> nat) list" where
  "object_id =
    [(''None'', 0), (''Buildings'', 1), (''Fences'', 2), (''Other'', 3),
     (''Pedestrians'', 4), (''Poles'', 5), (''RoadLines'', 6), (''Roads'', 7),
     (''Sidewalks'', 8), (''Vegetation'', 9), (''Vehicles'', 10), (''Wall'', 11),
     (''TrafficsSigns'', 12), (''Sky'', 13), (''Ground'', 14), (''Bridge'', 15),
     (''RailTrack'', 16), (''GuardRail'', 17), (''TrafficLight'', 18),
     (''Static'', 19), (''Dynamic'', 20), (''Water'', 21), (''Terrain'', 22)]"

definition key_list :: "string list" where
  "key_list = map fst object_id"

definition value_list :: "nat list" where
  "value_list = map snd object_id"

text \<open>\<^verbatim>\<open>list.index(v)\<close>: the first position holding \<open>v\<close>; \<open>None\<close> stands for the
  \<^verbatim>\<open>ValueError\<close> Python raises when there is none.\<close>

fun list_index :: "'a list \<Rightarrow> 'a \<Rightarrow> nat option" where
  "list_index [] v = None"
| "list_index (u # us) v = (if u = v then Some 0 else map_option Suc (list_index us v))"

text \<open>\<^verbatim>\<open>str(n)\<close> of a non-negative integer, as the f-string \<^verbatim>\<open>{tag}\<close> renders it.\<close>

definition digit_char :: "nat \<Rightarrow> char" where
  "digit_char n = ''0123456789'' ! n"

fun str_of_nat :: "nat \<Rightarrow> string" where
  "str_of_nat n =
    (if n < 10 then [digit_char n] else str_of_nat (n div 10) @ [digit_char (n mod 10)])"

declare str_of_nat.simps [simp del]

text \<open>Lines 123-127: the reverse lookup with its \<^verbatim>\<open>except ValueError\<close> branch.\<close>

definition class_name :: "nat \<Rightarrow> string" where
  "class_name tag =
    (case list_index value_list tag of
       Some i \<Rightarrow> key_list ! i
     | None \<Rightarrow> ''Unknown('' @ str_of_nat tag @ '')'')"

subsection \<open>Detections and the two log files\<close>

record location =
  loc_x :: real
  loc_y :: real
  loc_z :: real

text \<open>A detection either carries \<^verbatim>\<open>x, y, z\<close> itself or, as the \<^verbatim>\<open>AttributeError\<close>
  branch expects, a \<^verbatim>\<open>point\<close> with these fields; both carry \<^verbatim>\<open>object_tag\<close>.\<close>

datatype detection =
    FlatDetection real real real nat
  | PointDetection location nat

fun object_tag :: "detection \<Rightarrow> nat" where
  "object_tag (FlatDetection _ _ _ t) = t"
| "object_tag (PointDetection _ t) = t"

text \<open>Lines 106-112 and 128-131: read the coordinates, falling back to \<^verbatim>\<open>.point\<close>.\<close>

fun coords :: "detection \<Rightarrow> real \<times> real \<times> real" where
  "coords (FlatDetection a b c _) = (a, b, c)"
| "coords (PointDetection p _) = (loc_x p, loc_y p, loc_z p)"

record raw_row =
  row_timestamp :: string
  row_x :: real
  row_y :: real
  row_z :: real
  row_tag :: nat

text \<open>
  The state the callback touches: the rows below the header of each CSV file (both
  files are opened in append mode and closed again inside the call), the lines
  printed, and how often the wall clock has been read. The clock itself is a
  parameter: reading number \<open>i\<close> of \<^verbatim>\<open>datetime.now().strftime(...)\<close> returns
  \<open>clock i\<close>.
\<close>

record io_state =
  raw_lidar_csv :: "raw_row list"
  detection_log_csv :: "(string \<times> string) list"
  stdout :: "string list"
  clock_reads :: nat

subsection \<open>The callback (lines 99-145)\<close>

definition raw_point :: "string \<Rightarrow> detection \<Rightarrow> raw_row" where
  "raw_point timestamp detection =
    (let tag = object_tag detection; (a, b, c) = coords detection
     in \<lparr>row_timestamp = timestamp, row_x = a, row_y = b, row_z = c, row_tag = tag\<rparr>)"

definition distance_of :: "detection \<Rightarrow> real" where
  "distance_of detection = (let (a, b, c) = coords detection in sqrt (a\<^sup>2 + b\<^sup>2 + c\<^sup>2))"

text \<open>
  The dictionary \<^verbatim>\<open>nearest\<close> is an association list in insertion order, which is the
  order \<^verbatim>\<open>nearest.items()\<close> yields: assigning to a present key keeps its place,
  assigning to a new key appends (\<^const>\<open>AList.update\<close>).
\<close>

definition nearest_step :: "(string \<times> real) list \<Rightarrow> detection \<Rightarrow> (string \<times> real) list" where
  "nearest_step nearest detection =
    (let name = class_name (object_tag detection);
         distance = distance_of detection
     in if map_of nearest name = None \<or> distance < the (map_of nearest name)
        then AList.update name distance nearest
        else nearest)"

fun nearest_loop :: "(string \<times> real) list \<Rightarrow> detection list \<Rightarrow> (string \<times> real) list" where
  "nearest_loop nearest [] = nearest"
| "nearest_loop nearest (detection # rest) = nearest_loop (nearest_step nearest detection) rest"

text \<open>\<^verbatim>\<open>sep.join(parts)\<close>.\<close>

fun join :: "string \<Rightarrow> string list \<Rightarrow> string" where
  "join sep [] = []"
| "join sep [p] = p"
| "join sep (p # q # ps) = p @ sep @ join sep (q # ps)"

text \<open>
  \<^verbatim>\<open>f"{d:.2f}"\<close>: the decimal expansion of \<open>d\<close> correctly rounded to two places,
  ties to even, with a minus sign for negative \<open>d\<close>.
\<close>

definition round_half_even :: "real \<Rightarrow> int" where
  "round_half_even r =
    (let f = \<lfloor>r\<rfloor>; frac = r - of_int f
     in if frac < 1 / 2 then f
        else if 1 / 2 < frac then f + 1
        else if even f then f else f + 1)"

definition format_2f :: "real \<Rightarrow> string" where
  "format_2f d =
    (let n = nat (round_half_even (\<bar>d\<bar> * 100))
     in (if d < 0 then ''-'' else '''')
        @ str_of_nat (n div 100) @ ''.''
        @ [digit_char (n div 10 mod 10), digit_char (n mod 10)])"

definition format_item :: "string \<times> real \<Rightarrow> string" where
  "format_item item = (case item of (n, d) \<Rightarrow> n @ '':'' @ format_2f d)"

text \<open>Line 138: \<^verbatim>\<open>sorted(nearest.items(), key=lambda x: x[1])[:8]\<close>. Python's
  \<^verbatim>\<open>sorted\<close> is stable, and so is \<^const>\<open>sort_key\<close>; the result of a stable sort is
  determined by the list and the keys.\<close>

definition summary_items :: "detection list \<Rightarrow> (string \<times> real) list" where
  "summary_items point_cloud_data =
    take 8 (sort_key snd (nearest_loop [] point_cloud_data))"

text \<open>Lines 136-139: the string stays empty when \<^verbatim>\<open>nearest\<close> is empty.\<close>

definition detections_summary :: "detection list \<Rightarrow> string" where
  "detections_summary point_cloud_data =
    (if nearest_loop [] point_cloud_data \<noteq> []
     then join '', '' (map format_item (summary_items point_cloud_data))
     else '''')"

definition semantic_lidar_data :: "(nat \<Rightarrow> string) \<Rightarrow> detection list \<Rightarrow> io_state \<Rightarrow> io_state" where
  "semantic_lidar_data clock point_cloud_data s =
    (let timestamp = clock (clock_reads s);
         s1 = s\<lparr>clock_reads := clock_reads s + 1\<rparr>;
         raw_points = map (raw_point timestamp) point_cloud_data;
         s2 = s1\<lparr>raw_lidar_csv := raw_lidar_csv s1 @ raw_points\<rparr>;
         summary = detections_summary point_cloud_data;
         s3 = (if nearest_loop [] point_cloud_data \<noteq> []
               then s2\<lparr>stdout := stdout s2 @ [''Detected (name : distance m) -> '' @ summary]\<rparr>
               else s2)
     in s3\<lparr>detection_log_csv := detection_log_csv s3 @ [(timestamp, summary)]\<rparr>)"

text \<open>Vocabulary for stating the properties of the summary: the class a detection
  is filed under, the position of the first detection of a class in the frame, and
  the order "smaller key first, equal keys in the given order".\<close>

definition class_of :: "detection \<Rightarrow> string" where
  "class_of detection = class_name (object_tag detection)"



section \<open>Fleet provisioning and teardown\<close>

subsection \<open>Exceptions\<close>

text \<open>
  The exceptions the script can meet. \<^verbatim>\<open>KeyboardInterrupt\<close> is the only one that is
  not an \<^verbatim>\<open>Exception\<close>, so the only one \<^verbatim>\<open>except Exception\<close> lets through.
\<close>

datatype py_exception = RuntimeError string | IndexError string | KeyboardInterrupt

fun is_Exception :: "py_exception \<Rightarrow> bool" where
  "is_Exception (RuntimeError _) = True"
| "is_Exception (IndexError _) = True"
| "is_Exception KeyboardInterrupt = False"

subsection \<open>The simulator as the script sees it\<close>

record rotation =
  pitch :: real
  yaw :: real
  roll :: real

record transform =
  tf_location :: location
  tf_rotation :: rotation

record attribute =
  attr_value :: string
  recommended_values :: "string list"

record blueprint =
  bp_id :: string
  bp_attributes :: "(string \<times> attribute) list"

definition has_attribute :: "blueprint \<Rightarrow> string \<Rightarrow> bool" where
  "has_attribute bp name \<longleftrightarrow> map_of (bp_attributes bp) name \<noteq> None"

definition get_attribute :: "blueprint \<Rightarrow> string \<Rightarrow> attribute" where
  "get_attribute bp name = the (map_of (bp_attributes bp) name)"

text \<open>\<^verbatim>\<open>bp.set_attribute(name, value)\<close> stores the value and leaves the recommended
  values alone.\<close>

definition set_attribute :: "blueprint \<Rightarrow> string \<Rightarrow> string \<Rightarrow> blueprint" where
  "set_attribute bp name v =
    bp\<lparr>bp_attributes :=
         AList.update name
           \<lparr>attr_value = v,
            recommended_values =
              (case map_of (bp_attributes bp) name of
                 None \<Rightarrow> [] | Some a \<Rightarrow> recommended_values a)\<rparr>
           (bp_attributes bp)\<rparr>"

datatype actor_ref = FutureActor | ActorId nat

text \<open>A \<^verbatim>\<open>SpawnActor\<close> command carries the commands chained to it with \<^verbatim>\<open>.then\<close>.\<close>

datatype command =
    SpawnActor blueprint transform "command list"
  | SetAutopilot actor_ref bool nat
  | DestroyActor nat

fun then_do :: "command \<Rightarrow> command \<Rightarrow> command" where
  "then_do (SpawnActor bp t cs) c = SpawnActor bp t (cs @ [c])"
| "then_do other c = other"

fun spawn_transform :: "command \<Rightarrow> transform option" where
  "spawn_transform (SpawnActor bp t cs) = Some t"
| "spawn_transform other = None"

record response =
  error :: string
  actor_id :: nat

text \<open>The requests the script sends that create or destroy actors, in the order sent.\<close>

datatype sim_call =
    WorldSpawnActor blueprint transform "nat option"
  | ApplyBatchSync "command list"
  | ApplyBatch "command list"
  | ActorDestroy nat

text \<open>
  What the simulator answers is a parameter of the model. The catalogue and the map
  are read-only data. \<^verbatim>\<open>apply_batch_sync\<close> answers every command of the batch, in
  order: \<open>batch_response sim batch i\<close> is the answer to command \<open>i\<close>. A request that
  fails raises \<^verbatim>\<open>RuntimeError\<close> with a message, and whether a spawn or a destroy
  fails may depend on the requests sent before it.
\<close>

record simulator =
  blueprint_filter :: "string \<Rightarrow> blueprint list"
  blueprint_find :: "string \<Rightarrow> blueprint option"
  spawn_points :: "transform list"
  tm_port :: nat
  spawn_actor_result :: "sim_call list \<Rightarrow> blueprint \<Rightarrow> transform \<Rightarrow> nat option \<Rightarrow> string + nat"
  batch_response :: "command list \<Rightarrow> nat \<Rightarrow> response"
  apply_batch_error :: "sim_call list \<Rightarrow> command list \<Rightarrow> string option"
  destroy_error :: "sim_call list \<Rightarrow> nat \<Rightarrow> string option"

definition apply_batch_sync :: "simulator \<Rightarrow> command list \<Rightarrow> response list" where
  "apply_batch_sync sim batch = map (batch_response sim batch) [0..<length batch]"

subsection \<open>The module \<^verbatim>\<open>random\<close>\<close>

text \<open>
  The generator is a parameter too: draw number \<open>pos\<close> of \<^verbatim>\<open>_randbelow(n)\<close> is
  \<open>rand pos mod n\<close>, and every function returns the number of the next draw.
  \<^verbatim>\<open>random.choice\<close> raises \<^verbatim>\<open>IndexError\<close> on an empty sequence; \<^verbatim>\<open>random.shuffle\<close>
  walks \<open>i\<close> from the last index down to 1 and swaps entry \<open>i\<close> with entry
  \<^verbatim>\<open>_randbelow(i + 1)\<close>.
\<close>

definition random_choice :: "(nat \<Rightarrow> nat) \<Rightarrow> nat \<Rightarrow> 'a list \<Rightarrow> py_exception + ('a \<times> nat)" where
  "random_choice rand pos xs =
    (if xs = [] then Inl (IndexError ''Cannot choose from an empty sequence'')
     else Inr (xs ! (rand pos mod length xs), pos + 1))"

fun shuffle_loop :: "(nat \<Rightarrow> nat) \<Rightarrow> nat \<Rightarrow> nat \<Rightarrow> 'a list \<Rightarrow> 'a list \<times> nat" where
  "shuffle_loop rand pos 0 xs = (xs, pos)"
| "shuffle_loop rand pos (Suc i) xs =
    (let j = rand pos mod (Suc i + 1)
     in shuffle_loop rand (pos + 1) i (xs[Suc i := xs ! j, j := xs ! Suc i]))"

definition shuffle :: "(nat \<Rightarrow> nat) \<Rightarrow> nat \<Rightarrow> 'a list \<Rightarrow> 'a list \<times> nat" where
  "shuffle rand pos xs = shuffle_loop rand pos (length xs - 1) xs"

subsection \<open>\<^verbatim>\<open>spawn_vehicles_batch\<close> (lines 158-197)\<close>

text \<open>
  Lines 180-187, one pass of the loop body: choose a blueprint, choose a colour and
  a driver among the recommended values where the blueprint has the attribute, set
  the role. The command built from the blueprint records its attributes as they
  are at that moment, and every attribute the script writes is written again each
  time the blueprint is chosen, so the catalogue entry is not written back.
\<close>

definition choose_attribute ::
  "(nat \<Rightarrow> nat) \<Rightarrow> string \<Rightarrow> blueprint \<times> nat \<Rightarrow> py_exception + (blueprint \<times> nat)" where
  "choose_attribute rand name bp_pos =
    (case bp_pos of (bp, pos) \<Rightarrow>
       if has_attribute bp name
       then (case random_choice rand pos (recommended_values (get_attribute bp name)) of
               Inl e \<Rightarrow> Inl e
             | Inr (v, pos') \<Rightarrow> Inr (set_attribute bp name v, pos'))
       else Inr (bp, pos))"

definition prepare_blueprint ::
  "(nat \<Rightarrow> nat) \<Rightarrow> nat \<Rightarrow> blueprint list \<Rightarrow> py_exception + (blueprint \<times> nat)" where
  "prepare_blueprint rand pos blueprints =
    (case random_choice rand pos blueprints of
       Inl e \<Rightarrow> Inl e
     | Inr bp_pos \<Rightarrow>
         (case choose_attribute rand ''color'' bp_pos of
            Inl e \<Rightarrow> Inl e
          | Inr bp_pos' \<Rightarrow>
              (case choose_attribute rand ''driver_id'' bp_pos' of
                 Inl e \<Rightarrow> Inl e
               | Inr (bp, pos') \<Rightarrow> Inr (set_attribute bp ''role_name'' ''autopilot'', pos'))))"

text \<open>Lines 176-188: the loop over \<^verbatim>\<open>enumerate(spawn_points)\<close> with its \<^verbatim>\<open>break\<close>.\<close>

fun build_batch ::
  "simulator \<Rightarrow> (nat \<Rightarrow> nat) \<Rightarrow> blueprint list \<Rightarrow> int \<Rightarrow> nat \<Rightarrow> nat \<Rightarrow> transform list \<Rightarrow>
   command list \<Rightarrow> py_exception + (command list \<times> nat)" where
  "build_batch sim rand blueprints n_spawn pos n [] batch = Inr (batch, pos)"
| "build_batch sim rand blueprints n_spawn pos n (transform # rest) batch =
    (if n_spawn \<le> int n then Inr (batch, pos)
     else (case prepare_blueprint rand pos blueprints of
             Inl e \<Rightarrow> Inl e
           | Inr (bp, pos') \<Rightarrow>
               build_batch sim rand blueprints n_spawn pos' (Suc n) rest
                 (batch @ [then_do (SpawnActor bp transform [])
                             (SetAutopilot FutureActor True (tm_port sim))])))"

text \<open>Lines 191-196: successes give their actor id, failures a logged warning.\<close>

fun collect_responses :: "response list \<Rightarrow> string list \<Rightarrow> nat list \<Rightarrow> string list \<times> nat list" where
  "collect_responses [] warnings spawned_ids = (warnings, spawned_ids)"
| "collect_responses (res # rest) warnings spawned_ids =
    (if error res \<noteq> []
     then collect_responses rest (warnings @ [''Spawn vehicle error: '' @ error res]) spawned_ids
     else collect_responses rest warnings (spawned_ids @ [actor_id res]))"

text \<open>What one call leaves behind: the batch it submitted, the responses it got, the
  warnings it logged, the ids it returns and the number of the next random draw.\<close>

record spawn_result =
  submitted :: "command list"
  answers :: "response list"
  logged :: "string list"
  returned :: "nat list"
  next_draw :: nat

definition spawn_vehicles_batch ::
  "simulator \<Rightarrow> (nat \<Rightarrow> nat) \<Rightarrow> nat \<Rightarrow> string \<Rightarrow> int \<Rightarrow> py_exception + spawn_result" where
  "spawn_vehicles_batch sim rand pos filter_pattern number =
    (let blueprints = blueprint_filter sim filter_pattern in
     if blueprints = []
     then Inl (RuntimeError (''No vehicle blueprints found for filter: '' @ filter_pattern))
     else
       (case shuffle rand pos blueprints of (blueprints, pos1) \<Rightarrow>
          if length (spawn_points sim) = 0
          then Inl (RuntimeError ''No spawn points in the map'')
          else
            (let n_spawn = min number (int (length (spawn_points sim))) in
             case shuffle rand pos1 (spawn_points sim) of (shuffled_points, pos2) \<Rightarrow>
               (case build_batch sim rand blueprints n_spawn pos2 0 shuffled_points [] of
                  Inl e \<Rightarrow> Inl e
                | Inr (batch, pos3) \<Rightarrow>
                    (let responses = apply_batch_sync sim batch in
                     case collect_responses responses [] [] of (warnings, spawned_ids) \<Rightarrow>
                       Inr \<lparr>submitted = batch, answers = responses, logged = warnings,
                            returned = spawned_ids, next_draw = pos3\<rparr>)))))"

subsection \<open>\<^verbatim>\<open>main\<close> (lines 200-266)\<close>

text \<open>
  The process state: the two module-level lists, the requests sent so far, the
  warnings logged, the number of the next random draw, and whether the
  \<^verbatim>\<open>while True\<close> loop has been reached. Actors are known by their ids. Printing and
  the calls that neither create nor destroy an actor (traffic manager settings,
  autopilot, spectator, \<^verbatim>\<open>listen\<close>, ticking) are left out.
\<close>

record proc =
  actor_list :: "nat list"
  spawned_vehicle_ids :: "nat list"
  sim_calls :: "sim_call list"
  log_warnings :: "string list"
  rng_pos :: nat
  loop_entered :: bool

definition HERO_MODEL_FILTER :: string where
  "HERO_MODEL_FILTER = ''model3''"

definition NUM_VEHICLES :: int where
  "NUM_VEHICLES = 30"

text \<open>\<^verbatim>\<open>xs[i]\<close> for \<open>i \<ge> 0\<close>.\<close>

definition list_get :: "'a list \<Rightarrow> nat \<Rightarrow> py_exception + 'a" where
  "list_get xs i = (if i < length xs then Inr (xs ! i) else Inl (IndexError ''list index out of range''))"

definition world_spawn_actor ::
  "simulator \<Rightarrow> proc \<Rightarrow> blueprint \<Rightarrow> transform \<Rightarrow> nat option \<Rightarrow> proc \<times> (py_exception + nat)" where
  "world_spawn_actor sim st bp t parent =
    (st\<lparr>sim_calls := sim_calls st @ [WorldSpawnActor bp t parent]\<rparr>,
     case spawn_actor_result sim (sim_calls st) bp t parent of
       Inl msg \<Rightarrow> Inl (RuntimeError msg)
     | Inr new_id \<Rightarrow> Inr new_id)"

text \<open>Lines 90-96, with \<^verbatim>\<open>str\<close> of the four configuration constants written out.\<close>

definition generate_lidar_blueprint :: "simulator \<Rightarrow> py_exception + blueprint" where
  "generate_lidar_blueprint sim =
    (case blueprint_find sim ''sensor.lidar.ray_cast_semantic'' of
       None \<Rightarrow> Inl (IndexError ''blueprint not found'')
     | Some lidar_bp \<Rightarrow>
         Inr (set_attribute
               (set_attribute
                 (set_attribute
                   (set_attribute lidar_bp ''channels'' ''64'')
                   ''points_per_second'' ''56000'')
                 ''rotation_frequency'' ''80'')
               ''range'' ''100.0''))"

definition lidar_transform :: transform where
  "lidar_transform =
    \<lparr>tf_location = \<lparr>loc_x = 0, loc_y = 0, loc_z = 22 / 10\<rparr>,
     tf_rotation = \<lparr>pitch = 0, yaw = 0, roll = 0\<rparr>\<rparr>"

text \<open>Lines 206-244: the body of the \<^verbatim>\<open>try\<close> up to the loop. The result is the state
  at the point reached and the exception raised there, if any.\<close>

definition main_startup :: "simulator \<Rightarrow> (nat \<Rightarrow> nat) \<Rightarrow> proc \<Rightarrow> proc \<times> py_exception option" where
  "main_startup sim rand st =
    (let hero_bp_list = blueprint_filter sim HERO_MODEL_FILTER in
     case (if length hero_bp_list = 0
           then random_choice rand (rng_pos st) (blueprint_filter sim ''vehicle.*'')
           else Inr (hero_bp_list ! 0, rng_pos st)) of
       Inl e \<Rightarrow> (st, Some e)
     | Inr (hero_bp, pos1) \<Rightarrow>
         (let st1 = st\<lparr>rng_pos := pos1\<rparr> in
          case list_get (spawn_points sim) 0 of
            Inl e \<Rightarrow> (st1, Some e)
          | Inr spawn_point \<Rightarrow>
              (case world_spawn_actor sim st1 hero_bp spawn_point None of
                 (st2, Inl e) \<Rightarrow> (st2, Some e)
               | (st2, Inr hero_vehicle) \<Rightarrow>
                   (let st3 = st2\<lparr>actor_list := actor_list st2 @ [hero_vehicle]\<rparr> in
                    case spawn_vehicles_batch sim rand (rng_pos st3) ''vehicle.*'' NUM_VEHICLES of
                      Inl e \<Rightarrow> (st3, Some e)
                    | Inr r \<Rightarrow>
                        (let st4 = st3\<lparr>sim_calls := sim_calls st3 @ [ApplyBatchSync (submitted r)],
                                       log_warnings := log_warnings st3 @ logged r,
                                       rng_pos := next_draw r,
                                       spawned_vehicle_ids :=
                                         spawned_vehicle_ids st3 @ returned r\<rparr> in
                         case generate_lidar_blueprint sim of
                           Inl e \<Rightarrow> (st4, Some e)
                         | Inr lidar_bp \<Rightarrow>
                             (case world_spawn_actor sim st4 lidar_bp lidar_transform
                                     (Some hero_vehicle) of
                                (st5, Inl e) \<Rightarrow> (st5, Some e)
                              | (st5, Inr lidar) \<Rightarrow>
                                  (st5\<lparr>actor_list := actor_list st5 @ [lidar]\<rparr>, None)))))))"

text \<open>\<^verbatim>\<open>try: ... except Exception: pass\<close> around one call: what still propagates.\<close>

definition except_Exception_pass :: "py_exception option \<Rightarrow> py_exception option" where
  "except_Exception_pass raised =
    (case raised of
       None \<Rightarrow> None
     | Some e \<Rightarrow> if is_Exception e then None else Some e)"

definition client_apply_batch :: "simulator \<Rightarrow> command list \<Rightarrow> proc \<Rightarrow> proc \<times> py_exception option" where
  "client_apply_batch sim cmds st =
    (st\<lparr>sim_calls := sim_calls st @ [ApplyBatch cmds]\<rparr>,
     map_option RuntimeError (apply_batch_error sim (sim_calls st) cmds))"

definition actor_destroy :: "simulator \<Rightarrow> nat \<Rightarrow> proc \<Rightarrow> proc \<times> py_exception option" where
  "actor_destroy sim actor st =
    (st\<lparr>sim_calls := sim_calls st @ [ActorDestroy actor]\<rparr>,
     map_option RuntimeError (destroy_error sim (sim_calls st) actor))"

text \<open>Lines 261-265: the loop over \<^verbatim>\<open>actor_list\<close>.\<close>

fun destroy_loop :: "simulator \<Rightarrow> nat list \<Rightarrow> proc \<Rightarrow> proc \<times> py_exception option" where
  "destroy_loop sim [] st = (st, None)"
| "destroy_loop sim (actor # rest) st =
    (case actor_destroy sim actor st of (st', raised) \<Rightarrow>
       (case except_Exception_pass raised of
          None \<Rightarrow> destroy_loop sim rest st'
        | Some e \<Rightarrow> (st', Some e)))"

text \<open>Lines 255-266: the \<^verbatim>\<open>finally\<close> block.\<close>

definition cleanup :: "simulator \<Rightarrow> proc \<Rightarrow> proc \<times> py_exception option" where
  "cleanup sim st =
    (case client_apply_batch sim (map DestroyActor (spawned_vehicle_ids st)) st of (st1, raised) \<Rightarrow>
       (case except_Exception_pass raised of
          Some e \<Rightarrow> (st1, Some e)
        | None \<Rightarrow> destroy_loop sim (actor_list st1) st1))"

text \<open>
  Lines 205-266. The loop ends only by an exception; \<open>loop_exit\<close> is that exception,
  or \<open>None\<close> for a loop that is never left, and then \<^verbatim>\<open>main\<close> does not return. An
  exception raised inside \<^verbatim>\<open>finally\<close> replaces the one in flight; a
  \<^verbatim>\<open>KeyboardInterrupt\<close> from the \<^verbatim>\<open>try\<close> body is handled, anything else is raised
  again after the \<^verbatim>\<open>finally\<close> block.
\<close>

definition try_finally :: "simulator \<Rightarrow> proc \<Rightarrow> py_exception \<Rightarrow> proc \<times> py_exception option" where
  "try_finally sim st e =
    (case cleanup sim st of
       (st', Some e') \<Rightarrow> (st', Some e')
     | (st', None) \<Rightarrow> (st', if e = KeyboardInterrupt then None else Some e))"

definition main ::
  "simulator \<Rightarrow> (nat \<Rightarrow> nat) \<Rightarrow> py_exception option \<Rightarrow> proc \<Rightarrow> (proc \<times> py_exception option) option" where
  "main sim rand loop_exit st =
    (case main_startup sim rand st of
       (st1, Some e) \<Rightarrow> Some (try_finally sim st1 e)
     | (st1, None) \<Rightarrow>
         (case loop_exit of
            None \<Rightarrow> None
          | Some e \<Rightarrow> Some (try_finally sim (st1\<lparr>loop_entered := True\<rparr>) e)))"

text \<open>The actors a sequence of requests tries to destroy, one entry per attempt.\<close>

fun destroyed_by :: "command \<Rightarrow> nat list" where
  "destroyed_by (DestroyActor a) = [a]"
| "destroyed_by other = []"

fun destroy_attempts :: "sim_call list \<Rightarrow> nat list" where
  "destroy_attempts [] = []"
| "destroy_attempts (ApplyBatch cmds # calls) = concat (map destroyed_by cmds) @ destroy_attempts calls"
| "destroy_attempts (ActorDestroy a # calls) = a # destroy_attempts calls"
| "destroy_attempts (other # calls) = destroy_attempts calls"

text \<open>A catalogue the loop body cannot fail on: where a blueprint has a colour or a
  driver attribute, the attribute recommends at least one value.\<close>

definition usable_catalog :: "blueprint list \<Rightarrow> bool" where
  "usable_catalog bps \<longleftrightarrow>
    (\<forall>bp \<in> set bps. \<forall>name \<in> {''color'', ''driver_id''}.
       has_attribute bp name \<longrightarrow> recommended_values (get_attribute bp name) \<noteq> [])"

subsection \<open>A small simulator to run the functions on\<close>

text \<open>
  One vehicle blueprint that every filter returns, the given spawn points, a batch
  in which the second command fails, and destroy requests that fail for an actor
  already asked to be destroyed.
\<close>

definition demo_blueprint :: blueprint where
  "demo_blueprint =
    \<lparr>bp_id = ''vehicle.tesla.model3'',
     bp_attributes =
       [(''color'', \<lparr>attr_value = ''0,0,0'', recommended_values = [''255,0,0'', ''0,0,255'']\<rparr>),
        (''role_name'', \<lparr>attr_value = ''default'', recommended_values = []\<rparr>)]\<rparr>"

definition demo_point :: "real \<Rightarrow> transform" where
  "demo_point a =
    \<lparr>tf_location = \<lparr>loc_x = a, loc_y = 0, loc_z = 0\<rparr>,
     tf_rotation = \<lparr>pitch = 0, yaw = 0, roll = 0\<rparr>\<rparr>"

definition demo_simulator :: "transform list \<Rightarrow> simulator" where
  "demo_simulator points =
    \<lparr>blueprint_filter = (\<lambda>pattern. [demo_blueprint]),
     blueprint_find = (\<lambda>name. None),
     spawn_points = points,
     tm_port = 8000,
     spawn_actor_result = (\<lambda>calls bp t parent. Inr 1),
     batch_response =
       (\<lambda>cmds i. if i = 1
                  then \<lparr>error = ''Spawn failed because of collision at spawn position'',
                        actor_id = 0\<rparr>
                  else \<lparr>error = [], actor_id = 100 + i\<rparr>),
     apply_batch_error = (\<lambda>calls cmds. None),
     destroy_error =
       (\<lambda>calls a. if ActorDestroy a \<in> set calls then Some ''actor not found'' else None)\<rparr>"

text \<open>The same simulator with every destroy request failing, batched or not.\<close>

definition failing_simulator :: simulator where
  "failing_simulator =
    (demo_simulator [])
      \<lparr>apply_batch_error := (\<lambda>calls cmds. Some ''time-out while waiting for the simulator''),
       destroy_error := (\<lambda>calls a. Some ''failed to destroy actor'')\<rparr>"

text \<open>And one whose catalogue also has the sensor blueprint, on a map with two spawn
  points.\<close>

definition working_simulator :: simulator where
  "working_simulator =
    (demo_simulator [demo_point 1, demo_point 2])
      \<lparr>blueprint_find :=
         (\<lambda>name. Some \<lparr>bp_id = name,
                       bp_attributes =
                         [(''role_name'', \<lparr>attr_value = ''default'', recommended_values = []\<rparr>)]\<rparr>)\<rparr>"

definition demo_proc :: proc where
  "demo_proc =
    \<lparr>actor_list = [1, 3], spawned_vehicle_ids = [100, 102], sim_calls = [],
     log_warnings = [], rng_pos = 0, loop_entered = False\<rparr>"

definition fresh_proc :: proc where
  "fresh_proc =
    \<lparr>actor_list = [], spawned_vehicle_ids = [], sim_calls = [],
     log_warnings = [], rng_pos = 0, loop_entered = False\<rparr>"

section \<open>Properties of the callback\<close>

lemma semantic_lidar_data_raw:
  "raw_lidar_csv (semantic_lidar_data clock F s) =
     raw_lidar_csv s @ map (raw_point (clock (clock_reads s))) F"
  by (simp add: semantic_lidar_data_def Let_def)

lemma semantic_lidar_data_summary:
  "detection_log_csv (semantic_lidar_data clock F s) =
     detection_log_csv s @ [(clock (clock_reads s), detections_summary F)]"
  by (simp add: semantic_lidar_data_def Let_def)

lemma detections_summary_Nil: "detections_summary [] = ''''"
  by (simp add: detections_summary_def)

text \<open>
  Claim C1. One call on a frame \<open>F\<close> appends as many rows to the raw log as \<open>F\<close> has
  points and exactly one row to the summary log; rows already in either log stay.
  For the empty frame the one summary row has the empty string as its summary.
\<close>

theorem rows_per_invocation:
  "\<exists>rows row.
     raw_lidar_csv (semantic_lidar_data clock F s) = raw_lidar_csv s @ rows
   \<and> length rows = length F
   \<and> detection_log_csv (semantic_lidar_data clock F s) = detection_log_csv s @ [row]
   \<and> (F = [] \<longrightarrow> snd row = '''')"
proof (intro exI conjI)
  show "raw_lidar_csv (semantic_lidar_data clock F s) =
          raw_lidar_csv s @ map (raw_point (clock (clock_reads s))) F"
    by (rule semantic_lidar_data_raw)
  show "length (map (raw_point (clock (clock_reads s))) F) = length F"
    by simp
  show "detection_log_csv (semantic_lidar_data clock F s) =
          detection_log_csv s @ [(clock (clock_reads s), detections_summary F)]"
    by (rule semantic_lidar_data_summary)
  show "F = [] \<longrightarrow> snd (clock (clock_reads s), detections_summary F) = ''''"
    by (simp add: detections_summary_Nil)
qed

theorem rows_per_invocation_witness:
  "\<exists>rows row.
     raw_lidar_csv (semantic_lidar_data (\<lambda>i. ''t'') []
        \<lparr>raw_lidar_csv = [], detection_log_csv = [], stdout = [], clock_reads = 0\<rparr>) = [] @ rows
   \<and> length rows = 0
   \<and> detection_log_csv (semantic_lidar_data (\<lambda>i. ''t'') []
        \<lparr>raw_lidar_csv = [], detection_log_csv = [], stdout = [], clock_reads = 0\<rparr>) = [] @ [row]
   \<and> snd row = ''''"
  using rows_per_invocation [of "\<lambda>i. ''t''" "[]"
      "\<lparr>raw_lidar_csv = [], detection_log_csv = [], stdout = [], clock_reads = 0\<rparr>"]
  by simp

subsection \<open>The summary: order, size, minima, rendering\<close>

lemma nearest_loop_snoc:
  "nearest_loop acc (F @ [p]) = nearest_step (nearest_loop acc F) p"
  by (induction F arbitrary: acc) simp_all

lemma nearest_step_keys:
  "map fst (nearest_step N p) =
     (if class_of p \<in> set (map fst N) then map fst N else map fst N @ [class_of p])"
  by (auto simp: nearest_step_def class_of_def Let_def update_keys map_of_eq_None_iff)

lemma nearest_step_map_of:
  "map_of (nearest_step N p) n =
     (if n = class_of p
      then Some (case map_of N n of None \<Rightarrow> distance_of p | Some d \<Rightarrow> min d (distance_of p))
      else map_of N n)"
  by (auto simp: nearest_step_def class_of_def Let_def update_conv' min_def split: option.splits)

lemma nearest_loop_keys_set:
  "set (map fst (nearest_loop [] F)) = class_of ` set F"
proof (induction F rule: rev_induct)
  case Nil
  show ?case by simp
next
  case (snoc p F)
  then show ?case
    by (auto simp: nearest_loop_snoc nearest_step_keys)
qed

lemma nearest_loop_keys_distinct:
  "distinct (map fst (nearest_loop [] F))"
proof (induction F rule: rev_induct)
  case Nil
  show ?case by simp
next
  case (snoc p F)
  then show ?case
    by (auto simp: nearest_loop_snoc nearest_step_keys)
qed





lemma nearest_loop_min:
  "map_of (nearest_loop [] F) n =
     (if n \<in> class_of ` set F then Some (Min (distance_of ` {p \<in> set F. class_of p = n})) else None)"
proof (induction F rule: rev_induct)
  case Nil
  show ?case by simp
next
  case (snoc p F)
  let ?S = "\<lambda>G. distance_of ` {q \<in> set G. class_of q = n}"
  show ?case
  proof (cases "class_of p = n")
    case False
    then have "?S (F @ [p]) = ?S F" by auto
    moreover have "n \<in> class_of ` set (F @ [p]) \<longleftrightarrow> n \<in> class_of ` set F" using False by auto
    ultimately show ?thesis using False snoc.IH
      by (simp add: nearest_loop_snoc nearest_step_map_of)
  next
    case True
    have S: "?S (F @ [p]) = insert (distance_of p) (?S F)" using True by auto
    have fin: "finite (?S F)" by simp
    show ?thesis
    proof (cases "n \<in> class_of ` set F")
      case False
      then have e: "?S F = {}" by auto
      have "Min (?S (F @ [p])) = distance_of p" by (simp only: S e Min_singleton)
      then show ?thesis using True False snoc.IH
        by (simp add: nearest_loop_snoc nearest_step_map_of)
    next
      case in_F: True
      then have ne: "?S F \<noteq> {}" by auto
      have "Min (insert (distance_of p) (?S F)) = min (distance_of p) (Min (?S F))"
        using fin ne by (rule Min_insert)
      then show ?thesis using True in_F snoc.IH S
        by (simp add: nearest_loop_snoc nearest_step_map_of min.commute)
    qed
  qed
qed

lemma nearest_loop_length: "length (nearest_loop [] F) = card (class_of ` set F)"
proof -
  have "length (nearest_loop [] F) = length (map fst (nearest_loop [] F))" by simp
  also have "\<dots> = card (set (map fst (nearest_loop [] F)))"
    using nearest_loop_keys_distinct by (rule distinct_card [symmetric])
  also have "\<dots> = card (class_of ` set F)" by (simp only: nearest_loop_keys_set)
  finally show ?thesis .
qed























lemma list_index_None: "list_index xs v = None \<longleftrightarrow> v \<notin> set xs"
  by (induction xs) auto

lemma class_name_unknown:
  assumes "tag \<notin> set value_list"
  shows "class_name tag = ''Unknown('' @ str_of_nat tag @ '')''"
proof -
  have "list_index value_list tag = None"
    using assms by (simp add: list_index_None)
  then show ?thesis by (simp add: class_name_def)
qed

lemma unknown_not_registered: "''Unknown('' @ s @ '')'' \<notin> set key_list"
  by (simp add: key_list_def object_id_def)

lemma nearest_loop_covers:
  assumes "p \<in> set F"
  shows "\<exists>d. d \<le> distance_of p \<and> (class_of p, d) \<in> set (nearest_loop [] F)"
proof -
  let ?S = "distance_of ` {q \<in> set F. class_of q = class_of p}"
  have in_S: "distance_of p \<in> ?S" using assms by simp
  have "map_of (nearest_loop [] F) (class_of p) = Some (Min ?S)"
    using assms by (simp add: nearest_loop_min)
  then have "(class_of p, Min ?S) \<in> set (nearest_loop [] F)"
    by (rule map_of_SomeD)
  moreover have "Min ?S \<le> distance_of p"
    using in_S by (simp add: Min_le)
  ultimately show ?thesis by blast
qed

lemma summary_items_all:
  assumes "card (class_of ` set F) \<le> 8"
  shows "set (summary_items F) = set (nearest_loop [] F)"
  using assms by (simp add: summary_items_def nearest_loop_length)

lemma str_of_nat_23: "str_of_nat 23 = ''23''"
  by (simp add: str_of_nat.simps [of 23] str_of_nat.simps [of 2] digit_char_def)

text \<open>
  Claim C4. A tag that is not in the table is named \<open>Unknown(tag)\<close>, a name no table
  entry has. A point with such a tag is kept: its class has an entry in \<^verbatim>\<open>nearest\<close>
  whose distance is at most the point's, that entry is in the summary whenever the
  frame has at most 8 classes, and the point's row, with the raw tag, is among the
  rows appended to the raw log.
\<close>

theorem unknown_tag_kept:
  assumes "tag \<notin> set value_list"
  shows "class_name tag = ''Unknown('' @ str_of_nat tag @ '')''
    \<and> class_name tag \<notin> set key_list
    \<and> (\<forall>F p. p \<in> set F \<and> object_tag p = tag \<longrightarrow>
          (\<exists>d. d \<le> distance_of p
             \<and> (class_name tag, d) \<in> set (nearest_loop [] F)
             \<and> (card (class_of ` set F) \<le> 8 \<longrightarrow> (class_name tag, d) \<in> set (summary_items F)))
          \<and> (\<forall>clock s. \<exists>rows.
                raw_lidar_csv (semantic_lidar_data clock F s) = raw_lidar_csv s @ rows
              \<and> raw_point (clock (clock_reads s)) p \<in> set rows
              \<and> row_tag (raw_point (clock (clock_reads s)) p) = tag))"
proof (intro conjI allI impI)
  show name: "class_name tag = ''Unknown('' @ str_of_nat tag @ '')''"
    using assms by (rule class_name_unknown)
  show "class_name tag \<notin> set key_list"
    unfolding name by (rule unknown_not_registered)
next
  fix F p
  assume p: "p \<in> set F \<and> object_tag p = tag"
  then have cls: "class_of p = class_name tag" by (simp add: class_of_def)
  obtain d where d: "d \<le> distance_of p" "(class_of p, d) \<in> set (nearest_loop [] F)"
    using p nearest_loop_covers by blast
  show "\<exists>d. d \<le> distance_of p
             \<and> (class_name tag, d) \<in> set (nearest_loop [] F)
             \<and> (card (class_of ` set F) \<le> 8 \<longrightarrow> (class_name tag, d) \<in> set (summary_items F))"
    using d by (auto simp: cls summary_items_all)
next
  fix F p clock s
  assume p: "p \<in> set F \<and> object_tag p = tag"
  show "\<exists>rows.
          raw_lidar_csv (semantic_lidar_data clock F s) = raw_lidar_csv s @ rows
        \<and> raw_point (clock (clock_reads s)) p \<in> set rows
        \<and> row_tag (raw_point (clock (clock_reads s)) p) = tag"
  proof (intro exI conjI)
    show "raw_lidar_csv (semantic_lidar_data clock F s) =
            raw_lidar_csv s @ map (raw_point (clock (clock_reads s))) F"
      by (rule semantic_lidar_data_raw)
    show "raw_point (clock (clock_reads s)) p \<in> set (map (raw_point (clock (clock_reads s))) F)"
      using p by simp
    show "row_tag (raw_point (clock (clock_reads s)) p) = tag"
      using p by (simp add: raw_point_def split: prod.splits)
  qed
qed

theorem unknown_tag_kept_witness:
  "class_name 23 = ''Unknown(23)''
   \<and> (''Unknown(23)'', 5) \<in> set (summary_items [FlatDetection 3 4 0 23])
   \<and> (\<exists>rows. raw_lidar_csv (semantic_lidar_data (\<lambda>i. ''t'') [FlatDetection 3 4 0 23]
         \<lparr>raw_lidar_csv = [], detection_log_csv = [], stdout = [], clock_reads = 0\<rparr>) = rows
        \<and> \<lparr>row_timestamp = ''t'', row_x = 3, row_y = 4, row_z = 0, row_tag = 23\<rparr> \<in> set rows)"
proof -
  have notin: "(23::nat) \<notin> set value_list"
    by (simp add: value_list_def object_id_def)
  have sq: "sqrt (5\<^sup>2) = 5" by simp
  have dist: "distance_of (FlatDetection 3 4 0 23) = 5"
    using sq by (simp add: distance_of_def)
  note kept = unknown_tag_kept [OF notin]
  have name: "class_name 23 = ''Unknown(23)''"
    using kept by (simp add: str_of_nat_23)
  have items: "summary_items [FlatDetection 3 4 0 23] = [(''Unknown(23)'', 5)]"
    by (simp add: summary_items_def nearest_step_def Let_def name dist)
  show ?thesis
    by (simp add: name items semantic_lidar_data_raw raw_point_def)
qed

text \<open>
  Claim C10. One call reads the clock exactly once, and that one reading is the
  timestamp of every raw row the call appends and of the summary row it appends.
\<close>

theorem one_timestamp_per_frame:
  "clock_reads (semantic_lidar_data clock F s) = clock_reads s + 1
   \<and> (\<exists>rows. raw_lidar_csv (semantic_lidar_data clock F s) = raw_lidar_csv s @ rows
        \<and> length rows = length F
        \<and> (\<forall>r \<in> set rows. row_timestamp r = clock (clock_reads s)))
   \<and> (\<exists>summary. detection_log_csv (semantic_lidar_data clock F s) =
         detection_log_csv s @ [(clock (clock_reads s), summary)])"
proof (intro conjI exI)
  show "clock_reads (semantic_lidar_data clock F s) = clock_reads s + 1"
    by (simp add: semantic_lidar_data_def Let_def)
  show "raw_lidar_csv (semantic_lidar_data clock F s) =
          raw_lidar_csv s @ map (raw_point (clock (clock_reads s))) F"
    by (rule semantic_lidar_data_raw)
  show "length (map (raw_point (clock (clock_reads s))) F) = length F"
    by simp
  show "\<forall>r \<in> set (map (raw_point (clock (clock_reads s))) F). row_timestamp r = clock (clock_reads s)"
    by (auto simp: raw_point_def split: prod.splits)
  show "detection_log_csv (semantic_lidar_data clock F s) =
          detection_log_csv s @ [(clock (clock_reads s), detections_summary F)]"
    by (rule semantic_lidar_data_summary)
qed

theorem one_timestamp_per_frame_witness:
  "\<exists>rows. raw_lidar_csv (semantic_lidar_data (\<lambda>i. if i = 0 then ''t0'' else ''t1'')
        [FlatDetection 3 4 0 10, FlatDetection 0 0 5 7]
        \<lparr>raw_lidar_csv = [], detection_log_csv = [], stdout = [], clock_reads = 0\<rparr>) = rows
     \<and> length rows = 2
     \<and> row_timestamp (rows ! 0) = ''t0'' \<and> row_timestamp (rows ! 1) = ''t0''"
proof -
  let ?clock = "\<lambda>i::nat. if i = 0 then ''t0'' else ''t1''"
  let ?F = "[FlatDetection 3 4 0 10, FlatDetection 0 0 5 7]"
  let ?s = "\<lparr>raw_lidar_csv = [], detection_log_csv = [], stdout = [], clock_reads = 0\<rparr>"
  obtain rows where rows: "raw_lidar_csv (semantic_lidar_data ?clock ?F ?s) = raw_lidar_csv ?s @ rows"
      "length rows = length ?F" "\<forall>r \<in> set rows. row_timestamp r = ?clock (clock_reads ?s)"
    using one_timestamp_per_frame [of ?clock ?F ?s] by blast
  have "rows ! 0 \<in> set rows" "rows ! 1 \<in> set rows"
    using rows(2) by simp_all
  then have "row_timestamp (rows ! 0) = ''t0''" "row_timestamp (rows ! 1) = ''t0''"
    using rows(3) by simp_all
  then show ?thesis using rows(1,2) by simp
qed

section \<open>Properties of provisioning and teardown\<close>

subsection \<open>Shuffling, the batch loop and the response loop\<close>

lemma shuffle_loop_mset:
  "i < length xs \<Longrightarrow> mset (fst (shuffle_loop rand pos i xs)) = mset xs"
proof (induction i arbitrary: pos xs)
  case 0
  show ?case by simp
next
  case (Suc i)
  let ?j = "rand pos mod (Suc i + 1)"
  let ?ys = "xs[Suc i := xs ! ?j, ?j := xs ! Suc i]"
  have "?j < Suc i + 1" by simp
  then have j: "?j < length xs" using Suc.prems by linarith
  have "mset ?ys = mset xs"
    using j Suc.prems by (rule mset_swap)
  moreover have "i < length ?ys" using Suc.prems by simp
  ultimately show ?case
    using Suc.IH [of ?ys "pos + 1"] by (simp add: Let_def)
qed

lemma shuffle_mset: "mset (fst (shuffle rand pos xs)) = mset xs"
proof (cases xs)
  case Nil
  then show ?thesis by (simp add: shuffle_def)
next
  case (Cons x xs')
  then have "length xs - 1 < length xs" by simp
  then show ?thesis unfolding shuffle_def by (rule shuffle_loop_mset)
qed

lemma mset_take_subset: "mset (take n xs) \<subseteq># mset xs"
proof -
  have "mset xs = mset (take n xs) + mset (drop n xs)"
    by (simp only: mset_append [symmetric] append_take_drop_id)
  then show ?thesis by simp
qed

lemma shuffle_set: "shuffle rand pos xs = (ys, pos') \<Longrightarrow> set ys = set xs"
  using shuffle_mset [of rand pos xs] by (metis fst_conv mset_eq_setD)

lemma shuffle_length: "shuffle rand pos xs = (ys, pos') \<Longrightarrow> length ys = length xs"
  using shuffle_mset [of rand pos xs] by (metis fst_conv mset_eq_length)



lemma set_attribute_other:
  "name' \<noteq> name \<Longrightarrow> has_attribute (set_attribute bp name v) name' = has_attribute bp name'"
  "name' \<noteq> name \<Longrightarrow> get_attribute (set_attribute bp name v) name' = get_attribute bp name'"
  by (simp_all add: has_attribute_def get_attribute_def set_attribute_def update_conv')

lemma choose_attribute_ok:
  assumes "has_attribute bp name \<longrightarrow> recommended_values (get_attribute bp name) \<noteq> []"
  shows "\<exists>v pos'. choose_attribute rand name (bp, pos) = Inr (bp, pos)
       \<or> choose_attribute rand name (bp, pos) = Inr (set_attribute bp name v, pos')"
  using assms by (auto simp: choose_attribute_def random_choice_def)

lemma prepare_blueprint_ok:
  assumes "blueprints \<noteq> []" "usable_catalog blueprints"
  shows "\<exists>bp pos'. prepare_blueprint rand pos blueprints = Inr (bp, pos')"
proof -
  let ?bp = "blueprints ! (rand pos mod length blueprints)"
  have mem: "?bp \<in> set blueprints" using assms(1) by simp
  have choice: "random_choice rand pos blueprints = Inr (?bp, Suc pos)"
    using assms(1) by (simp add: random_choice_def)
  have color: "has_attribute ?bp ''color'' \<longrightarrow> recommended_values (get_attribute ?bp ''color'') \<noteq> []"
    and driver: "has_attribute ?bp ''driver_id'' \<longrightarrow> recommended_values (get_attribute ?bp ''driver_id'') \<noteq> []"
    using assms(2) mem by (auto simp: usable_catalog_def)
  obtain bp1 pos1 where c1: "choose_attribute rand ''color'' (?bp, Suc pos) = Inr (bp1, pos1)"
    and bp1: "bp1 = ?bp \<or> (\<exists>v. bp1 = set_attribute ?bp ''color'' v)"
    using choose_attribute_ok [OF color, of rand "Suc pos"] by blast
  have "has_attribute bp1 ''driver_id'' \<longrightarrow> recommended_values (get_attribute bp1 ''driver_id'') \<noteq> []"
    using bp1 driver by (auto simp: set_attribute_other)
  then obtain bp2 pos2 where c2: "choose_attribute rand ''driver_id'' (bp1, pos1) = Inr (bp2, pos2)"
    using choose_attribute_ok [of bp1 "''driver_id''" rand pos1] by blast
  show ?thesis
    by (simp add: prepare_blueprint_def choice c1 c2)
qed

lemma build_batch_ok:
  assumes "blueprints \<noteq> []" "usable_catalog blueprints"
  shows "\<exists>b pos'. build_batch sim rand blueprints n_spawn pos n ts batch0 = Inr (b, pos')
     \<and> map spawn_transform b =
         map spawn_transform batch0 @ map Some (take (nat (n_spawn - int n)) ts)"
proof (induction ts arbitrary: pos n batch0)
  case Nil
  show ?case by simp
next
  case (Cons t ts)
  show ?case
  proof (cases "n_spawn \<le> int n")
    case True
    then show ?thesis by simp
  next
    case False
    obtain bp pos1 where prep: "prepare_blueprint rand pos blueprints = Inr (bp, pos1)"
      using prepare_blueprint_ok [OF assms] by blast
    let ?c = "then_do (SpawnActor bp t []) (SetAutopilot FutureActor True (tm_port sim))"
    obtain b pos' where rec: "build_batch sim rand blueprints n_spawn pos1 (Suc n) ts (batch0 @ [?c]) = Inr (b, pos')"
      and tr: "map spawn_transform b =
         map spawn_transform (batch0 @ [?c]) @ map Some (take (nat (n_spawn - int (Suc n))) ts)"
      using Cons.IH by blast
    have "nat (n_spawn - int n) = Suc (nat (n_spawn - int (Suc n)))"
      using False by simp
    then have "map spawn_transform b =
         map spawn_transform batch0 @ map Some (take (nat (n_spawn - int n)) (t # ts))"
      using tr by simp
    then show ?thesis using False prep rec by simp
  qed
qed

lemma spawn_no_blueprints:
  "blueprint_filter sim f = [] \<Longrightarrow>
   spawn_vehicles_batch sim rand pos f number =
     Inl (RuntimeError (''No vehicle blueprints found for filter: '' @ f))"
  by (simp add: spawn_vehicles_batch_def)

lemma spawn_no_points:
  "blueprint_filter sim f \<noteq> [] \<Longrightarrow> spawn_points sim = [] \<Longrightarrow>
   spawn_vehicles_batch sim rand pos f number = Inl (RuntimeError ''No spawn points in the map'')"
  by (simp add: spawn_vehicles_batch_def split: prod.splits)

lemma spawn_returns:
  assumes "blueprint_filter sim f \<noteq> []" "usable_catalog (blueprint_filter sim f)"
    "spawn_points sim \<noteq> []"
  shows "\<exists>r ts. spawn_vehicles_batch sim rand pos f number = Inr r
     \<and> map spawn_transform (submitted r) = map Some ts
     \<and> length ts = nat (min number (int (length (spawn_points sim))))
     \<and> mset ts \<subseteq># mset (spawn_points sim)"
proof -
  obtain bps pos1 where sh1: "shuffle rand pos (blueprint_filter sim f) = (bps, pos1)"
    by (cases "shuffle rand pos (blueprint_filter sim f)")
  obtain pts pos2 where sh2: "shuffle rand pos1 (spawn_points sim) = (pts, pos2)"
    by (cases "shuffle rand pos1 (spawn_points sim)")
  have set_bps: "set bps = set (blueprint_filter sim f)" using sh1 by (rule shuffle_set)
  then have bps: "bps \<noteq> []" "usable_catalog bps"
    using assms(1,2) by (auto simp: usable_catalog_def)
  have mset_pts: "mset pts = mset (spawn_points sim)"
    using shuffle_mset [of rand pos1 "spawn_points sim"] sh2 by simp
  let ?n_spawn = "min number (int (length (spawn_points sim)))"
  obtain b pos3 where bb: "build_batch sim rand bps ?n_spawn pos2 0 pts [] = Inr (b, pos3)"
    and tr: "map spawn_transform b = map spawn_transform [] @ map Some (take (nat (?n_spawn - int 0)) pts)"
    using build_batch_ok [OF bps] by blast
  let ?ts = "take (nat ?n_spawn) pts"
  let ?r = "\<lparr>submitted = b, answers = apply_batch_sync sim b,
      logged = fst (collect_responses (apply_batch_sync sim b) [] []),
      returned = snd (collect_responses (apply_batch_sync sim b) [] []), next_draw = pos3\<rparr>"
  have "spawn_vehicles_batch sim rand pos f number = Inr ?r"
    using assms(1,3) by (simp add: spawn_vehicles_batch_def sh1 sh2 bb Let_def split: prod.splits)
  moreover have "map spawn_transform (submitted ?r) = map Some ?ts" using tr by simp
  moreover have "length ?ts = nat ?n_spawn"
  proof -
    have "nat ?n_spawn \<le> length pts"
      using mset_eq_length [OF mset_pts] by simp
    then show ?thesis by simp
  qed
  moreover have "mset ?ts \<subseteq># mset (spawn_points sim)"
    using mset_take_subset [of "nat ?n_spawn" pts] by (simp only: mset_pts)
  ultimately show ?thesis by blast
qed


lemma demo_catalog: "usable_catalog [demo_blueprint]"
  by (simp add: usable_catalog_def demo_blueprint_def has_attribute_def get_attribute_def)

lemma demo_simulator_simps:
  "blueprint_filter (demo_simulator pts) f = [demo_blueprint]"
  "spawn_points (demo_simulator pts) = pts"
  by (simp_all add: demo_simulator_def)






subsection \<open>Teardown and startup\<close>

lemma except_Exception_pass_RuntimeError:
  "except_Exception_pass (map_option RuntimeError failure) = None"
  by (cases failure) (simp_all add: except_Exception_pass_def)

lemma destroy_loop_calls:
  "destroy_loop sim actors st = (st\<lparr>sim_calls := sim_calls st @ map ActorDestroy actors\<rparr>, None)"
proof (induction actors arbitrary: st)
  case Nil
  show ?case by simp
next
  case (Cons a actors)
  show ?case
    by (simp add: actor_destroy_def except_Exception_pass_RuntimeError Cons.IH)
qed

lemma cleanup_calls:
  "cleanup sim st =
     (st\<lparr>sim_calls := sim_calls st
           @ ApplyBatch (map DestroyActor (spawned_vehicle_ids st)) # map ActorDestroy (actor_list st)\<rparr>,
      None)"
  by (simp add: cleanup_def client_apply_batch_def except_Exception_pass_RuntimeError
      destroy_loop_calls)

lemma destroy_attempts_append:
  "destroy_attempts (calls @ calls') = destroy_attempts calls @ destroy_attempts calls'"
  by (induction calls rule: destroy_attempts.induct) simp_all

lemma destroy_attempts_batch: "concat (map (destroyed_by \<circ> DestroyActor) ids) = ids"
  by (induction ids) simp_all

lemma destroy_attempts_each: "destroy_attempts (map ActorDestroy actors) = actors"
  by (induction actors) simp_all

lemma destroy_attempts_cleanup:
  "destroy_attempts (sim_calls (fst (cleanup sim st))) =
     destroy_attempts (sim_calls st) @ spawned_vehicle_ids st @ actor_list st"
  by (simp add: cleanup_calls destroy_attempts_append destroy_attempts_batch destroy_attempts_each)

lemma cleanup_keeps_lists:
  "actor_list (fst (cleanup sim st)) = actor_list st"
  "spawned_vehicle_ids (fst (cleanup sim st)) = spawned_vehicle_ids st"
  "loop_entered (fst (cleanup sim st)) = loop_entered st"
  by (simp_all add: cleanup_calls)

text \<open>
  Claim C8. Whatever requests fail, the \<^verbatim>\<open>finally\<close> block raises nothing and sends
  exactly these requests in this order: one batch destroying all fleet vehicles,
  then one destroy per entry of \<^verbatim>\<open>actor_list\<close>.
\<close>

theorem teardown_batch_then_each:
  "\<exists>st'. cleanup sim st = (st', None)
     \<and> sim_calls st' = sim_calls st
          @ ApplyBatch (map DestroyActor (spawned_vehicle_ids st)) # map ActorDestroy (actor_list st)
     \<and> (\<forall>a \<in> set (actor_list st). ActorDestroy a \<in> set (sim_calls st'))"
proof -
  let ?batch = "map DestroyActor (spawned_vehicle_ids st)"
  let ?st1 = "st\<lparr>sim_calls := sim_calls st @ [ApplyBatch ?batch]\<rparr>"
  have batch: "client_apply_batch sim ?batch st =
      (?st1, map_option RuntimeError (apply_batch_error sim (sim_calls st) ?batch))"
    by (simp add: client_apply_batch_def)
  have swallowed: "except_Exception_pass
      (map_option RuntimeError (apply_batch_error sim (sim_calls st) ?batch)) = None"
    by (rule except_Exception_pass_RuntimeError)
  have each: "destroy_loop sim (actor_list ?st1) ?st1 =
      (?st1\<lparr>sim_calls := sim_calls ?st1 @ map ActorDestroy (actor_list ?st1)\<rparr>, None)"
    by (rule destroy_loop_calls)
  let ?st' = "?st1\<lparr>sim_calls := sim_calls ?st1 @ map ActorDestroy (actor_list ?st1)\<rparr>"
  have "cleanup sim st = (?st', None)"
    by (simp only: cleanup_def batch swallowed each prod.case option.case)
  moreover have "sim_calls ?st' = sim_calls st @ ApplyBatch ?batch # map ActorDestroy (actor_list st)"
    by simp
  moreover have "\<forall>a \<in> set (actor_list st). ActorDestroy a \<in> set (sim_calls ?st')"
    by simp
  ultimately show ?thesis by blast
qed

theorem teardown_batch_then_each_witness:
  "\<exists>st'. cleanup failing_simulator demo_proc = (st', None)
     \<and> sim_calls st' =
         [ApplyBatch [DestroyActor 100, DestroyActor 102], ActorDestroy 1, ActorDestroy 3]"
proof -
  obtain st' where "cleanup failing_simulator demo_proc = (st', None)"
    and "sim_calls st' = sim_calls demo_proc
          @ ApplyBatch (map DestroyActor (spawned_vehicle_ids demo_proc))
          # map ActorDestroy (actor_list demo_proc)"
    using teardown_batch_then_each [of failing_simulator demo_proc] by blast
  then show ?thesis by (simp add: demo_proc_def)
qed

text \<open>
  Claim C5. Running the \<^verbatim>\<open>finally\<close> block twice raises nothing either time, and
  the second run attempts the same destroys as the first once more: the two lists
  are never emptied. With both lists empty a run attempts no destroy.
\<close>

theorem teardown_twice_repeats:
  "\<exists>st1 st2. cleanup sim st = (st1, None) \<and> cleanup sim st1 = (st2, None)
     \<and> destroy_attempts (sim_calls st1) =
         destroy_attempts (sim_calls st) @ spawned_vehicle_ids st @ actor_list st
     \<and> destroy_attempts (sim_calls st2) =
         destroy_attempts (sim_calls st1) @ spawned_vehicle_ids st @ actor_list st
     \<and> (spawned_vehicle_ids st = [] \<and> actor_list st = [] \<longrightarrow>
          destroy_attempts (sim_calls st1) = destroy_attempts (sim_calls st))"
proof -
  obtain st1 where c1: "cleanup sim st = (st1, None)"
    by (simp add: cleanup_calls)
  obtain st2 where c2: "cleanup sim st1 = (st2, None)"
    by (simp add: cleanup_calls)
  have st1: "st1 = fst (cleanup sim st)" using c1 by simp
  have st2: "st2 = fst (cleanup sim st1)" using c2 by simp
  have a1: "destroy_attempts (sim_calls st1) =
         destroy_attempts (sim_calls st) @ spawned_vehicle_ids st @ actor_list st"
    unfolding st1 by (rule destroy_attempts_cleanup)
  have a2: "destroy_attempts (sim_calls st2) =
         destroy_attempts (sim_calls st1) @ spawned_vehicle_ids st @ actor_list st"
    unfolding st2 by (simp add: destroy_attempts_cleanup st1 cleanup_keeps_lists)
  show ?thesis using c1 c2 a1 a2 by auto
qed

theorem teardown_twice_repeats_witness:
  "\<exists>st1. cleanup (demo_simulator []) fresh_proc = (st1, None)
     \<and> destroy_attempts (sim_calls st1) = destroy_attempts (sim_calls fresh_proc)"
proof -
  have empty: "spawned_vehicle_ids fresh_proc = [] \<and> actor_list fresh_proc = []"
    by (simp add: fresh_proc_def)
  from teardown_twice_repeats [of "demo_simulator []" fresh_proc] empty
  show ?thesis by blast
qed

text \<open>Claim C5, the second run: with two fleet vehicles and two tracked actors it adds
  four destroy attempts to the four of the first run.\<close>

theorem teardown_twice_counterexample:
  "destroy_attempts (sim_calls (fst (cleanup (demo_simulator []) demo_proc))) = [100, 102, 1, 3]
   \<and> destroy_attempts (sim_calls (fst (cleanup (demo_simulator [])
        (fst (cleanup (demo_simulator []) demo_proc))))) = [100, 102, 1, 3, 100, 102, 1, 3]"
  by (simp add: destroy_attempts_cleanup cleanup_keeps_lists) (simp add: demo_proc_def)

lemma try_finally_propagates:
  "is_Exception e \<Longrightarrow> try_finally sim st e = (fst (cleanup sim st), Some e)"
  by (cases e) (simp_all add: try_finally_def cleanup_calls)

lemma world_spawn_actor_flag:
  "world_spawn_actor sim st bp t parent = (st', res) \<Longrightarrow> loop_entered st' = loop_entered st"
  by (auto simp: world_spawn_actor_def)

lemma world_spawn_actor_error:
  "world_spawn_actor sim st bp t parent = (st', Inl e) \<Longrightarrow> is_Exception e"
  by (auto simp: world_spawn_actor_def split: sum.splits)

lemma main_startup_flag:
  "main_startup sim rand st = (st', res) \<Longrightarrow> loop_entered st' = loop_entered st"
  by (auto simp: main_startup_def Let_def
      split: sum.splits prod.splits if_splits dest!: world_spawn_actor_flag)

lemma spawn_vehicles_batch_fails:
  assumes "blueprint_filter sim f = [] \<or> spawn_points sim = []"
  shows "\<exists>msg. spawn_vehicles_batch sim rand pos f number = Inl (RuntimeError msg)"
  using assms spawn_no_blueprints [of sim f rand pos number] spawn_no_points [of sim f rand pos number]
  by (cases "blueprint_filter sim f = []") auto

lemma main_startup_fails:
  assumes "blueprint_filter sim ''vehicle.*'' = [] \<or> spawn_points sim = []"
  shows "\<exists>st' e. main_startup sim rand st = (st', Some e) \<and> is_Exception e"
proof -
  have fleet: "\<And>pos. \<exists>msg. spawn_vehicles_batch sim rand pos ''vehicle.*'' NUM_VEHICLES = Inl (RuntimeError msg)"
    using assms by (rule spawn_vehicles_batch_fails)
  show ?thesis
  proof (cases "spawn_points sim = []")
    case True
    then show ?thesis
      by (auto simp: main_startup_def Let_def list_get_def random_choice_def split: sum.splits)
  next
    case False
    then have nobp: "blueprint_filter sim ''vehicle.*'' = []" using assms by simp
    show ?thesis
    proof (cases "blueprint_filter sim HERO_MODEL_FILTER = []")
      case True
      then show ?thesis using nobp
        by (simp add: main_startup_def Let_def random_choice_def)
    next
      case hero: False
      let ?st1 = "st\<lparr>rng_pos := rng_pos st\<rparr>"
      let ?bp = "blueprint_filter sim HERO_MODEL_FILTER ! 0"
      obtain st2 res where sp: "world_spawn_actor sim ?st1 ?bp (spawn_points sim ! 0) None = (st2, res)"
        by (cases "world_spawn_actor sim ?st1 ?bp (spawn_points sim ! 0) None")
      show ?thesis
      proof (cases res)
        case (Inl e)
        then have "is_Exception e" using sp world_spawn_actor_error by blast
        then show ?thesis using hero False sp Inl
          by (simp add: main_startup_def Let_def list_get_def)
      next
        case (Inr hero_vehicle)
        obtain msg where "spawn_vehicles_batch sim rand (rng_pos (st2\<lparr>actor_list := actor_list st2 @ [hero_vehicle]\<rparr>))
            ''vehicle.*'' NUM_VEHICLES = Inl (RuntimeError msg)"
          using fleet by blast
        then show ?thesis using hero False sp Inr
          by (simp add: main_startup_def Let_def list_get_def)
      qed
    qed
  qed
qed

text \<open>With a simulator that answers every startup request, \<^verbatim>\<open>main\<close> does reach its
  loop, and an interrupt then ends it normally after the teardown.\<close>

lemma main_reaches_loop:
  "\<exists>st'. main working_simulator rand (Some KeyboardInterrupt) fresh_proc = Some (st', None)
     \<and> loop_entered st' \<and> actor_list st' = [1, 1]"
proof -
  have sim: "blueprint_filter working_simulator f = [demo_blueprint]"
    "spawn_points working_simulator = [demo_point 1, demo_point 2]" for f
    by (simp_all add: working_simulator_def demo_simulator_def)
  obtain r where r: "spawn_vehicles_batch working_simulator rand 0 ''vehicle.*'' NUM_VEHICLES = Inr r"
    using spawn_returns [of working_simulator "''vehicle.*''" rand 0 NUM_VEHICLES]
    by (auto simp: sim demo_catalog)
  obtain lidar_bp where lidar: "generate_lidar_blueprint working_simulator = Inr lidar_bp"
    by (simp add: generate_lidar_blueprint_def working_simulator_def)
  have spawn: "spawn_actor_result working_simulator calls bp t parent = Inr 1" for calls bp t parent
    by (simp add: working_simulator_def demo_simulator_def)
  have "\<exists>st1. main_startup working_simulator rand fresh_proc = (st1, None) \<and> actor_list st1 = [1, 1]"
    by (simp add: main_startup_def Let_def sim list_get_def world_spawn_actor_def spawn
        fresh_proc_def r lidar)
  then obtain st1 where start: "main_startup working_simulator rand fresh_proc = (st1, None)"
    and actors: "actor_list st1 = [1, 1]" by blast
  show ?thesis
    by (simp add: main_def start try_finally_def cleanup_calls actors)
qed

text \<open>
  Claim C9. With no vehicle blueprint or no spawn point, \<^verbatim>\<open>spawn_vehicles_batch\<close>
  raises \<^verbatim>\<open>RuntimeError\<close>, and \<^verbatim>\<open>main\<close> ends with an exception that it raises again
  after the \<^verbatim>\<open>finally\<close> block, without having reached its loop.
\<close>

theorem setup_failure_is_fatal:
  assumes "blueprint_filter sim ''vehicle.*'' = [] \<or> spawn_points sim = []"
  shows "(\<exists>msg. spawn_vehicles_batch sim rand pos ''vehicle.*'' number = Inl (RuntimeError msg))
    \<and> (\<exists>st' e. main sim rand loop_exit st = Some (st', Some e)
          \<and> is_Exception e \<and> loop_entered st' = loop_entered st)"
proof
  show "\<exists>msg. spawn_vehicles_batch sim rand pos ''vehicle.*'' number = Inl (RuntimeError msg)"
    using assms by (rule spawn_vehicles_batch_fails)
  obtain st1 e where start: "main_startup sim rand st = (st1, Some e)" and e: "is_Exception e"
    using main_startup_fails [OF assms] by blast
  have flag: "loop_entered st1 = loop_entered st"
    using start by (rule main_startup_flag)
  have "main sim rand loop_exit st = Some (fst (cleanup sim st1), Some e)"
    using start e by (simp add: main_def try_finally_propagates)
  then show "\<exists>st' e. main sim rand loop_exit st = Some (st', Some e)
          \<and> is_Exception e \<and> loop_entered st' = loop_entered st"
    using e flag by (simp add: cleanup_keeps_lists)
qed

theorem setup_failure_is_fatal_witness:
  "(\<exists>msg. spawn_vehicles_batch (demo_simulator []) (\<lambda>i. i) 0 ''vehicle.*'' 30 = Inl (RuntimeError msg))
   \<and> (\<exists>st' e. main (demo_simulator []) (\<lambda>i. i) (Some KeyboardInterrupt) fresh_proc = Some (st', Some e)
        \<and> is_Exception e \<and> loop_entered st' = False)"
proof -
  have "blueprint_filter (demo_simulator []) ''vehicle.*'' = [] \<or> spawn_points (demo_simulator []) = []"
    by (simp add: demo_simulator_simps)
  from setup_failure_is_fatal [OF this, of "\<lambda>i. i" 0 30 "Some KeyboardInterrupt" fresh_proc]
  show ?thesis by (simp add: fresh_proc_def)
qed

end
